theory Spec2Isabelle
  imports Complex_Main
begin

section \<open>The dataset exploration page of \<open>app.py\<close>\<close>

text \<open>
  \<open>app.py\<close> is a Streamlit script: every interaction runs it from top to bottom on the
  current widget values. The embedding follows the script from the preview section on.
  The result of the loader is an input (\<open>None\<close> when nothing is loaded) and the widget
  values are a record. A run returns the elements the script has sent to the page, in
  order, and the exception that stopped it, if one was raised outside every \<open>try\<close>.

  Figures built by plotly are kept as the terms of the calls that build them. The pandas
  calls are embedded as pandas documents them, with floats read as reals:
  \<open>data[key]\<close>, \<open>Series.corr\<close>, \<open>data.corr()\<close> and \<open>data.describe()\<close> return or raise.
  The statsmodels calls of the OLS branch return or raise as a parameter of the run
  decides.
\<close>

subsection \<open>Data\<close>

text \<open>
  A column label: the text of a header cell, or a whole number (\<open>pd.read_excel\<close> keeps a
  numeric header cell as a number).
\<close>

datatype label = TextLabel string | IntLabel int

text \<open>The text \<open>str(e)\<close> of an exception.\<close>

type_synonym exn = string

datatype cell = Num real | Txt string | NA

type_synonym column = "cell list"

text \<open>A data frame: its columns in file order, each under its header label.\<close>

type_synonym dataset = "(label \<times> column) list"

datatype plot_type =
    LinePlot | BarChart | Histogram | ScatterPlot | BoxPlot
  | CorrelationHeatmap | NormalDistributionCurve | OLSRegression
  | CorrelationBetweenTwoColumns

fun plot_type_name :: "plot_type \<Rightarrow> string" where
  "plot_type_name LinePlot = ''Line Plot''"
| "plot_type_name BarChart = ''Bar Chart''"
| "plot_type_name Histogram = ''Histogram''"
| "plot_type_name ScatterPlot = ''Scatter Plot''"
| "plot_type_name BoxPlot = ''Box Plot''"
| "plot_type_name CorrelationHeatmap = ''Correlation Heatmap''"
| "plot_type_name NormalDistributionCurve = ''Normal Distribution Curve''"
| "plot_type_name OLSRegression = ''OLS Regression''"
| "plot_type_name CorrelationBetweenTwoColumns = ''Correlation Between Two Columns''"

text \<open>Tables derived from the data frame by pandas: the values of \<open>data.head()\<close>,
  \<open>data.corr()\<close> and \<open>data.describe()\<close> when these return.\<close>

datatype frame = Head dataset | DfCorr dataset | Describe dataset

text \<open>The \<open>x\<close> argument of \<open>px.line\<close> and \<open>px.bar\<close>: a column selection or \<open>data.index\<close>.\<close>

datatype xdata = Column "label option" | RowIndex

text \<open>
  A plotly figure, as the call that builds it. An argument that is \<open>None\<close> in Python, or
  left out of the call, is \<open>None\<close> here. \<open>PxLineXY\<close> is \<open>px.line(x=..., y=..., title=...)\<close>
  on two arrays; \<open>AddScatter\<close> is the red \<open>OLS Line\<close> trace; \<open>UpdateLayout\<close> carries the
  keyword arguments of \<open>fig.update_layout\<close>.
\<close>

datatype figure =
    PxLine dataset xdata "label option" "string option"
  | PxBar dataset xdata "label option" "string option"
  | PxHistogram dataset "label option" "label option" "string option"
  | PxScatter dataset "label option" "label option" "string option"
  | PxBox dataset "label option" "label option" "string option"
  | PxImshow frame "string option"
  | PxLineXY "real list" "real list" "string option"
  | AddScatter figure column "real list"
  | UpdateLayout figure "(string \<times> string option) list"

text \<open>What the script sends to the main area of the page.\<close>

datatype element =
    StSubheader string
  | StDataframe frame
  | StWarning string
  | StSuccess string
  | StError string
  | StPlotlyChart figure
  | StText string
  | StWrite frame

text \<open>
  The result of a piece of the script: the elements it has sent, and the exception that
  ended it, if any. \<open>then_run\<close> is sequencing: nothing runs after an exception.
\<close>

type_synonym outcome = "element list \<times> exn option"

definition render :: "element list \<Rightarrow> outcome" where
  "render es = (es, None)"

definition raise :: "exn \<Rightarrow> outcome" where
  "raise e = ([], Some e)"

fun then_run :: "outcome \<Rightarrow> outcome \<Rightarrow> outcome" where
  "then_run (out, Some e) next = (out, Some e)"
| "then_run (out, None) (out', r) = (out @ out', r)"

text \<open>A float that may be not a number.\<close>

datatype pyfloat = Float real | NaN

text \<open>
  The statsmodels behaviour behind the \<open>try\<close> block of the OLS branch:
  \<open>sm.add_constant\<close>, \<open>sm.OLS(y, X).fit()\<close>, \<open>model.predict\<close> and \<open>model.summary\<close>.
  \<open>Inl e\<close> is an exception with text \<open>e\<close>.
\<close>

record ('x, 'm) lib =
  add_constant :: "column \<Rightarrow> exn + 'x"
  ols_fit :: "column \<Rightarrow> 'x \<Rightarrow> exn + 'm"
  predict :: "'m \<Rightarrow> 'x \<Rightarrow> exn + real list"
  summary :: "'m \<Rightarrow> exn + string"

text \<open>The current values of the sidebar widgets; a text field the user has not edited is
  \<open>None\<close>. A select box over no options returns \<open>None\<close>.\<close>

record ui =
  plot_type_sel :: plot_type
  x_sel :: "label option"
  y_sel :: "label option"
  hue_sel :: string
  single_chk :: bool
  single_sel :: "label option"
  single_label_typed :: "string option"
  title_typed :: "string option"
  xlabel_typed :: "string option"
  ylabel_typed :: "string option"

text \<open>The variables of the script once the sidebar has been read (lines 52 to 77).\<close>

record config =
  plot_type :: plot_type
  x_col :: "label option"
  y_col :: "label option"
  hue_col :: string
  use_single_col :: bool
  single_column :: "label option"
  single_column_label :: "string option"
  default_title :: string
  plot_title :: "string option"
  xlabel :: "string option"
  ylabel :: "string option"

subsection \<open>Python values\<close>

text \<open>Decimal notation, as \<open>str\<close> writes an \<open>int\<close>.\<close>

definition digit_char :: "nat \<Rightarrow> char" where
  "digit_char d = ''0123456789'' ! d"

fun show_nat :: "nat \<Rightarrow> string" where
  "show_nat n =
     (if n < 10 then [digit_char n] else show_nat (n div 10) @ [digit_char (n mod 10)])"

declare show_nat.simps [simp del]

definition show_int :: "int \<Rightarrow> string" where
  "show_int i = (if i < 0 then ''-'' @ show_nat (nat (- i)) else show_nat (nat i))"

text \<open>\<open>str\<close> of a label; an f-string applies \<open>str\<close>, and \<open>str(None)\<close> is \<open>None\<close>.\<close>

fun label_text :: "label \<Rightarrow> string" where
  "label_text (TextLabel s) = s"
| "label_text (IntLabel i) = show_int i"

fun py_str :: "string option \<Rightarrow> string" where
  "py_str None = ''None''"
| "py_str (Some s) = s"

definition selection_text :: "label option \<Rightarrow> string" where
  "selection_text sel = py_str (map_option label_text sel)"

text \<open>Truth value of a selection: \<open>None\<close>, the empty string and the number 0 are false.\<close>

fun truthy :: "label option \<Rightarrow> bool" where
  "truthy None = False"
| "truthy (Some (TextLabel s)) = (s \<noteq> [])"
| "truthy (Some (IntLabel i)) = (i \<noteq> 0)"

definition apostrophe :: string where
  "apostrophe = [CHR 0x27]"

text \<open>\<open>repr\<close> of a key (a text without quotes or escapes), the text of a
  \<open>KeyError\<close>.\<close>

fun key_repr :: "label option \<Rightarrow> string" where
  "key_repr None = ''None''"
| "key_repr (Some (TextLabel s)) = apostrophe @ s @ apostrophe"
| "key_repr (Some (IntLabel i)) = show_int i"

text \<open>\<open>data[key]\<close>; a missing key raises \<open>KeyError\<close>.\<close>

definition getitem :: "dataset \<Rightarrow> label option \<Rightarrow> exn + column" where
  "getitem data key =
     (case key of
        None \<Rightarrow> Inl (key_repr key)
      | Some l \<Rightarrow>
          (case map_of data l of
             None \<Rightarrow> Inl (key_repr key)
           | Some col \<Rightarrow> Inr col))"

text \<open>\<open>st.text_input(label, value)\<close>: the text the user typed, else the initial value
  (the caller passes it as text).\<close>

definition text_input :: "string option \<Rightarrow> string option \<Rightarrow> string option" where
  "text_input typed val = (case typed of Some s \<Rightarrow> Some s | None \<Rightarrow> val)"

text \<open>
  \<open>np.linspace(start, stop, num)\<close> with the end point included, and the density
  \<open>norm.pdf\<close> of the standard normal distribution.
\<close>

definition np_linspace :: "real \<Rightarrow> real \<Rightarrow> nat \<Rightarrow> real list" where
  "np_linspace start stop num =
     (if num = 0 then []
      else if num = 1 then [start]
      else map (\<lambda>i. start + real i * ((stop - start) / real (num - 1))) [0..<num - 1]
           @ [stop])"

definition norm_pdf :: "real \<Rightarrow> real" where
  "norm_pdf x = exp (- (x\<^sup>2) / 2) / sqrt (2 * pi)"

subsection \<open>The pandas calls\<close>

fun is_text :: "cell \<Rightarrow> bool" where
  "is_text (Txt s) = True"
| "is_text c = False"

definition has_text :: "column \<Rightarrow> bool" where
  "has_text col = list_ex is_text col"

text \<open>The fixed part of the text of the \<open>ValueError\<close> that the conversion of a text
  cell to a float raises; the text goes on with the cell.\<close>

definition float_conversion_error :: exn where
  "float_conversion_error = ''could not convert string to float''"

text \<open>\<open>data.corr()\<close> converts every column to floats, and raises on a text cell (the
  behaviour of pandas since version 2.0, where \<open>numeric_only\<close> is false unless given).\<close>

definition df_corr :: "dataset \<Rightarrow> exn + frame" where
  "df_corr data =
     (if list_ex (\<lambda>(l, col). has_text col) data then Inl float_conversion_error
      else Inr (DfCorr data))"

text \<open>\<open>data.describe()\<close> raises on a frame without columns.\<close>

definition describe :: "dataset \<Rightarrow> exn + frame" where
  "describe data =
     (if data = [] then Inl ''Cannot describe a DataFrame without columns''
      else Inr (Describe data))"

text \<open>The rows in which both columns hold a number.\<close>

fun complete_pairs :: "column \<Rightarrow> column \<Rightarrow> (real \<times> real) list" where
  "complete_pairs (Num a # xs) (Num b # ys) = (a, b) # complete_pairs xs ys"
| "complete_pairs (c # xs) (d # ys) = complete_pairs xs ys"
| "complete_pairs xs ys = []"

definition mean :: "real list \<Rightarrow> real" where
  "mean zs = sum_list zs / real (length zs)"

text \<open>Pearson's correlation coefficient of a list of pairs; not a number when a
  variance is zero or there is no pair.\<close>

definition pearson :: "(real \<times> real) list \<Rightarrow> pyfloat" where
  "pearson ps =
     (let xs = map fst ps; ys = map snd ps;
          sxy = (\<Sum>(x, y) \<leftarrow> ps. (x - mean xs) * (y - mean ys));
          sxx = (\<Sum>x \<leftarrow> xs. (x - mean xs)\<^sup>2);
          syy = (\<Sum>y \<leftarrow> ys. (y - mean ys)\<^sup>2)
      in if ps = [] \<or> sxx * syy = 0 then NaN else Float (sxy / sqrt (sxx * syy)))"

text \<open>\<open>Series.corr\<close>: both columns are converted to floats, rows with a missing value
  are dropped, and the coefficient of the rest is returned.\<close>

definition series_corr :: "column \<Rightarrow> column \<Rightarrow> exn + pyfloat" where
  "series_corr xs ys =
     (if has_text xs \<or> has_text ys then Inl float_conversion_error
      else Inr (pearson (complete_pairs xs ys)))"

text \<open>The format specification \<open>:.4f\<close>: four decimals, ties to even.\<close>

definition round_half_even :: "real \<Rightarrow> int" where
  "round_half_even x =
     (let f = \<lfloor>x\<rfloor>; d = x - of_int f
      in if d < 1 / 2 then f else if 1 / 2 < d then f + 1 else if even f then f else f + 1)"

definition format_4f :: "pyfloat \<Rightarrow> string" where
  "format_4f v =
     (case v of
        NaN \<Rightarrow> ''nan''
      | Float r \<Rightarrow>
          (let n = nat (round_half_even (\<bar>r\<bar> * 10000))
           in (if r < 0 then ''-'' else [])
              @ show_nat (n div 10000) @ ''.''
              @ [digit_char (n div 1000 mod 10), digit_char (n div 100 mod 10),
                 digit_char (n div 10 mod 10), digit_char (n mod 10)]))"

subsection \<open>Texts of the page\<close>

definition warning_sign :: string where
  "warning_sign = [CHR 0xE2, CHR 0x9A, CHR 0xA0, CHR 0xEF, CHR 0xB8, CHR 0x8F]"

definition cross_mark :: string where
  "cross_mark = [CHR 0xE2, CHR 0x9D, CHR 0x8C]"

definition check_mark :: string where
  "check_mark = [CHR 0xE2, CHR 0x9C, CHR 0x85]"

definition page_icon :: string where
  "page_icon = [CHR 0xF0, CHR 0x9F, CHR 0x93, CHR 0x84]"

definition bar_chart_icon :: string where
  "bar_chart_icon = [CHR 0xF0, CHR 0x9F, CHR 0x93, CHR 0x8A]"

definition chart_up_icon :: string where
  "chart_up_icon = [CHR 0xF0, CHR 0x9F, CHR 0x93, CHR 0x88]"

definition no_dataset_warning :: string where
  "no_dataset_warning =
     warning_sign @ '' No dataset loaded. Please upload a file or click the button to load ''
     @ apostrophe @ ''data.csv'' @ apostrophe @ ''.''"

definition ols_warning :: string where
  "ols_warning =
     warning_sign @ '' Please select two **different** columns and uncheck ''
     @ apostrophe @ ''Use just one column for plot'' @ apostrophe @ ''.''"

definition corr_warning :: string where
  "corr_warning =
     warning_sign
     @ '' Please make sure you selected two **different** columns and unchecked ''
     @ apostrophe @ ''Use just one column for plot'' @ apostrophe @ ''.''"

definition ols_error :: "exn \<Rightarrow> string" where
  "ols_error e = cross_mark @ '' Error fitting OLS model: '' @ e"

definition corr_error :: "exn \<Rightarrow> string" where
  "corr_error e = cross_mark @ '' Error computing correlation: '' @ e"

definition corr_success :: "label option \<Rightarrow> label option \<Rightarrow> string \<Rightarrow> string" where
  "corr_success x y v =
     check_mark @ '' Correlation between **'' @ selection_text x @ ''** and **''
     @ selection_text y @ ''**: `'' @ v @ ''`''"

subsection \<open>Reading the sidebar (lines 52 to 77)\<close>

text \<open>
  Single-column mode sets \<open>y_col\<close> to \<open>None\<close> and reads the column and its label; the
  default title and the default texts of the label fields are computed from the result.
  Outside single-column mode the script never binds \<open>single_column\<close> and never reads it;
  the record holds \<open>None\<close> there.
\<close>

definition configure :: "ui \<Rightarrow> config" where
  "configure u =
     (let single = single_chk u;
          single_column = (if single then single_sel u else None);
          y = (if single then None else y_sel u);
          single_column_label =
            (if single
             then text_input (single_label_typed u) (map_option label_text single_column)
             else None);
          title =
            (if \<not> single
             then plot_type_name (plot_type_sel u) @ '' of '' @ selection_text (x_sel u)
                  @ '' vs '' @ selection_text y
             else plot_type_name (plot_type_sel u) @ '' of '' @ py_str single_column_label)
      in \<lparr> plot_type = plot_type_sel u,
           x_col = x_sel u,
           y_col = y,
           hue_col = hue_sel u,
           use_single_col = single,
           single_column = single_column,
           single_column_label = single_column_label,
           default_title = title,
           plot_title = text_input (title_typed u) (Some title),
           xlabel = text_input (xlabel_typed u) (map_option label_text (x_sel u)),
           ylabel = text_input (ylabel_typed u)
                      (if \<not> single then map_option label_text y
                       else single_column_label) \<rparr>)"

subsection \<open>The plot dispatcher (lines 82 to 160)\<close>

text \<open>\<open>fig.update_layout(xaxis_title=xlabel, yaxis_title=ylabel)\<close>, then
  \<open>st.plotly_chart(fig)\<close>.\<close>

definition show_labelled :: "config \<Rightarrow> figure \<Rightarrow> element list" where
  "show_labelled c fig =
     [StPlotlyChart
        (UpdateLayout fig [(''xaxis_title'', xlabel c), (''yaxis_title'', ylabel c)])]"

text \<open>The condition of lines 131 and 153.\<close>

definition two_columns_selected :: "config \<Rightarrow> bool" where
  "two_columns_selected c =
     (\<not> use_single_col c \<and> truthy (x_col c) \<and> truthy (y_col c) \<and> x_col c \<noteq> y_col c)"

text \<open>
  The body of the \<open>try\<close> block of the OLS branch (lines 133 to 145): the elements it has
  sent to the page, and the exception that ended it, if one did.
\<close>

definition ols_body :: "('x, 'm) lib \<Rightarrow> dataset \<Rightarrow> config \<Rightarrow> outcome" where
  "ols_body L data c =
     (case getitem data (x_col c) of
        Inl e \<Rightarrow> raise e
      | Inr xs \<Rightarrow>
     (case add_constant L xs of
        Inl e \<Rightarrow> raise e
      | Inr X \<Rightarrow>
     (case getitem data (y_col c) of
        Inl e \<Rightarrow> raise e
      | Inr ys \<Rightarrow>
     (case ols_fit L ys X of
        Inl e \<Rightarrow> raise e
      | Inr model \<Rightarrow>
     (case predict L model X of
        Inl e \<Rightarrow> raise e
      | Inr predictions \<Rightarrow>
          (let fig = PxScatter data (x_col c) (y_col c) (plot_title c);
               fig = AddScatter fig xs predictions;
               fig = UpdateLayout fig
                       [(''title'', plot_title c), (''xaxis_title'', xlabel c),
                        (''yaxis_title'', ylabel c)];
               out = [StPlotlyChart fig,
                      StSubheader (page_icon @ '' OLS Regression Summary'')]
           in case summary L model of
                Inl e \<Rightarrow> (out, Some e)
              | Inr s \<Rightarrow> render (out @ [StText s])))))))"

text \<open>\<open>except Exception as e\<close>: the error banner after what the body has sent; the
  exception goes no further.\<close>

definition ols_regression :: "('x, 'm) lib \<Rightarrow> dataset \<Rightarrow> config \<Rightarrow> outcome" where
  "ols_regression L data c =
     (if two_columns_selected c
      then (case ols_body L data c of
              (out, None) \<Rightarrow> render out
            | (out, Some e) \<Rightarrow> render (out @ [StError (ols_error e)]))
      else render [StWarning ols_warning])"

text \<open>The body of the \<open>try\<close> block of the correlation branch (lines 155 and 156).\<close>

definition corr_body :: "dataset \<Rightarrow> config \<Rightarrow> outcome" where
  "corr_body data c =
     (case getitem data (x_col c) of
        Inl e \<Rightarrow> raise e
      | Inr xs \<Rightarrow>
     (case getitem data (y_col c) of
        Inl e \<Rightarrow> raise e
      | Inr ys \<Rightarrow>
     (case series_corr xs ys of
        Inl e \<Rightarrow> raise e
      | Inr correlation_value \<Rightarrow>
          render [StSuccess
                    (corr_success (x_col c) (y_col c) (format_4f correlation_value))])))"

definition correlation_between_two_columns :: "dataset \<Rightarrow> config \<Rightarrow> outcome" where
  "correlation_between_two_columns data c =
     (if two_columns_selected c
      then (case corr_body data c of
              (out, None) \<Rightarrow> render out
            | (out, Some e) \<Rightarrow> render (out @ [StError (corr_error e)]))
      else render [StWarning corr_warning])"

text \<open>The \<open>if\<close>/\<open>elif\<close> chain. Only the heatmap branch can end in an exception:
  \<open>data.corr()\<close> at line 120 is outside every \<open>try\<close>.\<close>

definition plot_output :: "('x, 'm) lib \<Rightarrow> dataset \<Rightarrow> config \<Rightarrow> outcome" where
  "plot_output L data c =
     (case plot_type c of
        LinePlot \<Rightarrow>
          render (show_labelled c
            (if use_single_col c
             then PxLine data RowIndex (single_column c) (plot_title c)
             else PxLine data (Column (x_col c)) (y_col c) (plot_title c)))
      | BarChart \<Rightarrow>
          render (show_labelled c
            (if use_single_col c
             then PxBar data RowIndex (single_column c) (plot_title c)
             else PxBar data (Column (x_col c)) (y_col c) (plot_title c)))
      | Histogram \<Rightarrow>
          render (show_labelled c
            (if use_single_col c
             then PxHistogram data (single_column c) None (plot_title c)
             else PxHistogram data (x_col c) (y_col c) (plot_title c)))
      | ScatterPlot \<Rightarrow>
          render (show_labelled c (PxScatter data (x_col c) (y_col c) (plot_title c)))
      | BoxPlot \<Rightarrow>
          render (show_labelled c
            (if use_single_col c
             then PxBox data None (single_column c) (plot_title c)
             else PxBox data (x_col c) (y_col c) (plot_title c)))
      | CorrelationHeatmap \<Rightarrow>
          (case df_corr data of
             Inl e \<Rightarrow> raise e
           | Inr corr \<Rightarrow>
               render [StPlotlyChart (PxImshow corr (Some ''Correlation Heatmap''))])
      | NormalDistributionCurve \<Rightarrow>
          (let x = np_linspace (- 3) 3 100
           in render (show_labelled c (PxLineXY x (map norm_pdf x) (plot_title c))))
      | OLSRegression \<Rightarrow> ols_regression L data c
      | CorrelationBetweenTwoColumns \<Rightarrow> correlation_between_two_columns data c)"

subsection \<open>The page (lines 41 to 164)\<close>

text \<open>The preview section (lines 41 to 45).\<close>

definition preview :: "dataset option \<Rightarrow> element list" where
  "preview loaded =
     (case loaded of
        Some data \<Rightarrow>
          [StSubheader (page_icon @ '' Dataset Preview''), StDataframe (Head data)]
      | None \<Rightarrow> [StWarning no_dataset_warning])"

text \<open>Lines 163 and 164: the header is sent before \<open>data.describe()\<close> is evaluated.\<close>

definition statistical_summary :: "dataset \<Rightarrow> outcome" where
  "statistical_summary data =
     then_run (render [StSubheader (chart_up_icon @ '' Statistical Summary'')])
       (case describe data of
          Inl e \<Rightarrow> raise e
        | Inr table \<Rightarrow> render [StWrite table])"

text \<open>The preview, then, under the guard of line 48, the plot output and the summary.\<close>

definition page :: "('x, 'm) lib \<Rightarrow> dataset option \<Rightarrow> ui \<Rightarrow> outcome" where
  "page L loaded u =
     then_run (render (preview loaded))
       (case loaded of
          None \<Rightarrow> render []
        | Some data \<Rightarrow>
            then_run (render [StSubheader (bar_chart_icon @ '' Plot Output'')])
              (then_run (plot_output L data (configure u)) (statistical_summary data)))"

subsection \<open>Sample inputs\<close>

text \<open>A library in which \<open>add_constant\<close> returns and every later call raises \<open>e\<close>.\<close>

definition raising_lib :: "exn \<Rightarrow> (column, unit) lib" where
  "raising_lib e =
     \<lparr> add_constant = (\<lambda>xs. Inr xs),
       ols_fit = (\<lambda>ys X. Inl e),
       predict = (\<lambda>m X. Inl e),
       summary = (\<lambda>m. Inl e) \<rparr>"

text \<open>A library in which every call returns, the fitted line being \<open>y = 2 x\<close>.\<close>

definition fitting_lib :: "(column, unit) lib" where
  "fitting_lib =
     \<lparr> add_constant = (\<lambda>xs. Inr xs),
       ols_fit = (\<lambda>ys X. Inr ()),
       predict = (\<lambda>m X. Inr [2, 4, 6]),
       summary = (\<lambda>m. Inr ''OLS Regression Results'') \<rparr>"

definition sample_data :: dataset where
  "sample_data =
     [(TextLabel ''a'', [Num 1, Num 2, Num 3]), (TextLabel ''b'', [Num 2, Num 4, Num 6])]"


text \<open>A sheet with a text column.\<close>

definition mixed_data :: dataset where
  "mixed_data =
     [(TextLabel ''name'', [Txt ''ann'', Txt ''bob'']), (TextLabel ''age'', [Num 31, Num 27])]"

text \<open>Single-column mode on column \<open>a\<close>, histogram selected, no text field edited.\<close>

definition sample_ui :: ui where
  "sample_ui =
     \<lparr> plot_type_sel = Histogram, x_sel = Some (TextLabel ''a''),
       y_sel = Some (TextLabel ''b''), hue_sel = ''None'', single_chk = True,
       single_sel = Some (TextLabel ''a''), single_label_typed = None,
       title_typed = None, xlabel_typed = None, ylabel_typed = None \<rparr>"

text \<open>The widgets over a frame without columns: every select box returns \<open>None\<close>.\<close>

definition empty_ui :: ui where
  "empty_ui =
     \<lparr> plot_type_sel = OLSRegression, x_sel = None, y_sel = None, hue_sel = ''None'',
       single_chk = False, single_sel = None, single_label_typed = None,
       title_typed = None, xlabel_typed = None, ylabel_typed = None \<rparr>"

section \<open>Properties\<close>

subsection \<open>Auxiliary facts\<close>

lemma configure_fields [simp]:
  "plot_type (configure u) = plot_type_sel u"
  "x_col (configure u) = x_sel u"
  "y_col (configure u) = (if single_chk u then None else y_sel u)"
  "use_single_col (configure u) = single_chk u"
  "single_column (configure u) = (if single_chk u then single_sel u else None)"
  by (simp_all add: configure_def Let_def)

lemma configure_hue: "configure (u\<lparr>hue_sel := h\<rparr>) = (configure u)\<lparr>hue_col := h\<rparr>"
  by (simp add: configure_def Let_def)

lemma configure_single_y: "single_chk u \<Longrightarrow> configure (u\<lparr>y_sel := y\<rparr>) = configure u"
  by (simp add: configure_def Let_def)

lemma ols_body_hue: "ols_body L data (c\<lparr>hue_col := h\<rparr>) = ols_body L data c"
  by (simp add: ols_body_def cong del: sum.case_cong_weak)

lemma corr_body_hue: "corr_body data (c\<lparr>hue_col := h\<rparr>) = corr_body data c"
  by (simp add: corr_body_def cong del: sum.case_cong_weak)

lemma plot_output_hue: "plot_output L data (c\<lparr>hue_col := h\<rparr>) = plot_output L data c"
  by (cases "plot_type c")
     (simp_all add: plot_output_def show_labelled_def ols_regression_def
        correlation_between_two_columns_def two_columns_selected_def ols_body_hue
        corr_body_hue)

lemma page_not_loaded: "page L None u = ([StWarning no_dataset_warning], None)"
  by (simp add: page_def preview_def render_def)

text \<open>With at least one column, \<open>data.describe()\<close> returns, and the page is the preview,
  the plot output and, unless the dispatcher ended in an exception, the summary.\<close>

lemma page_loaded:
  assumes "data \<noteq> []" and "plot_output L data (configure u) = (out, None)"
  shows "page L (Some data) u =
           ([StSubheader (page_icon @ '' Dataset Preview''), StDataframe (Head data),
             StSubheader (bar_chart_icon @ '' Plot Output'')]
            @ out
            @ [StSubheader (chart_up_icon @ '' Statistical Summary''),
               StWrite (Describe data)], None)"
  using assms
  by (simp add: page_def preview_def statistical_summary_def describe_def render_def)

text \<open>The one hundred points of \<open>np.linspace(-3, 3, 100)\<close>.\<close>

lemma linspace_100:
  "np_linspace (- 3) 3 100 = map (\<lambda>i. - 3 + real i * (2 / 33)) [0..<99] @ [3]"
  by (simp add: np_linspace_def)

lemma linspace_length: "length (np_linspace (- 3) 3 100) = 100"
  by (simp add: linspace_100)

lemma linspace_hd: "hd (np_linspace (- 3) 3 100) = - 3"
proof -
  have "[0..<99] = 0 # [1..<99]" by (simp add: upt_conv_Cons)
  then show ?thesis by (simp add: linspace_100)
qed

lemma linspace_last: "last (np_linspace (- 3) 3 100) = 3"
  by (simp add: linspace_100)

lemma linspace_step:
  assumes "i < 99"
  shows "np_linspace (- 3) 3 100 ! Suc i - np_linspace (- 3) 3 100 ! i = 2 / 33"
proof (cases "Suc i < 99")
  case True
  then show ?thesis using assms by (simp add: linspace_100 nth_append algebra_simps)
next
  case False
  then have "i = 98" using assms by simp
  then show ?thesis by (simp add: linspace_100 nth_append)
qed










subsection \<open>The guard of the two-column branches\<close>

text \<open>
  C1. When the plot type is "OLS Regression" or "Correlation Between Two Columns" and
  the X and Y selections are the same, or single-column mode is on, the dispatcher shows
  the warning of its branch and nothing else. The output is the same for every library
  behaviour and every dataset: nothing is fitted and no correlation is computed.
\<close>

theorem invalid_pair_warns_without_computing:
  assumes "plot_type_sel u = OLSRegression \<or> plot_type_sel u = CorrelationBetweenTwoColumns"
    and "x_sel u = y_sel u \<or> single_chk u"
  shows "plot_output L data (configure u) =
           ([StWarning
               (if plot_type_sel u = OLSRegression then ols_warning else corr_warning)],
            None)
         \<and> plot_output L' data' (configure u) = plot_output L data (configure u)"
  using assms
  by (auto simp add: plot_output_def ols_regression_def correlation_between_two_columns_def
        two_columns_selected_def render_def)

text \<open>C1 at an OLS request with X = Y = \<open>a\<close>, and at a correlation request in
  single-column mode.\<close>

theorem invalid_pair_warns_without_computing_witness:
  "plot_type_sel
     (sample_ui\<lparr>plot_type_sel := OLSRegression, single_chk := False,
        y_sel := Some (TextLabel ''a'')\<rparr>)
     = OLSRegression
   \<and> x_sel (sample_ui\<lparr>plot_type_sel := OLSRegression, single_chk := False,
        y_sel := Some (TextLabel ''a'')\<rparr>)
     = y_sel (sample_ui\<lparr>plot_type_sel := OLSRegression, single_chk := False,
        y_sel := Some (TextLabel ''a'')\<rparr>)
   \<and> plot_output (raising_lib ''Singular matrix'') sample_data
        (configure
           (sample_ui\<lparr>plot_type_sel := OLSRegression, single_chk := False,
              y_sel := Some (TextLabel ''a'')\<rparr>))
       = ([StWarning ols_warning], None)
   \<and> plot_type_sel (sample_ui\<lparr>plot_type_sel := CorrelationBetweenTwoColumns\<rparr>)
       = CorrelationBetweenTwoColumns
   \<and> single_chk (sample_ui\<lparr>plot_type_sel := CorrelationBetweenTwoColumns\<rparr>)
   \<and> plot_output (raising_lib ''Singular matrix'') sample_data
        (configure (sample_ui\<lparr>plot_type_sel := CorrelationBetweenTwoColumns\<rparr>))
       = ([StWarning corr_warning], None)"
  using invalid_pair_warns_without_computing
      [of "sample_ui\<lparr>plot_type_sel := OLSRegression, single_chk := False,
             y_sel := Some (TextLabel ''a'')\<rparr>"
          "raising_lib ''Singular matrix''" sample_data
          "raising_lib ''Singular matrix''" sample_data]
    invalid_pair_warns_without_computing
      [of "sample_ui\<lparr>plot_type_sel := CorrelationBetweenTwoColumns\<rparr>"
          "raising_lib ''Singular matrix''" sample_data
          "raising_lib ''Singular matrix''" sample_data]
  by (simp add: sample_ui_def)

subsection \<open>The correlation of two columns\<close>




subsection \<open>The normal curve\<close>

text \<open>
  C3. With plot type "Normal Distribution Curve" the chart is the line through the points
  of \<open>np.linspace(-3, 3, 100)\<close> and their standard normal densities: one hundred
  x-values, the first -3, the last 3, any two neighbours 2/33 apart, each y-value
  \<open>exp (- x\<^sup>2 / 2) / sqrt (2 pi)\<close>. The points mention neither the dataset nor a column
  selection; only the title and the axis labels come from the configuration.
\<close>

theorem normal_curve_fixed_points:
  assumes "plot_type_sel u = NormalDistributionCurve"
  shows "plot_output L data (configure u) =
           ([StPlotlyChart
               (UpdateLayout
                  (PxLineXY (np_linspace (- 3) 3 100)
                     (map norm_pdf (np_linspace (- 3) 3 100)) (plot_title (configure u)))
                  [(''xaxis_title'', xlabel (configure u)),
                   (''yaxis_title'', ylabel (configure u))])], None)
         \<and> length (np_linspace (- 3) 3 100) = 100
         \<and> hd (np_linspace (- 3) 3 100) = - 3
         \<and> last (np_linspace (- 3) 3 100) = 3
         \<and> (\<forall>i<99. np_linspace (- 3) 3 100 ! Suc i - np_linspace (- 3) 3 100 ! i = 2 / 33)
         \<and> (\<forall>x. norm_pdf x = exp (- (x\<^sup>2) / 2) / sqrt (2 * pi))"
  using assms
  by (simp add: plot_output_def show_labelled_def Let_def render_def linspace_length
        linspace_hd linspace_last linspace_step norm_pdf_def)

text \<open>C3 on the sample dataset, and the spacing at the first two points.\<close>

theorem normal_curve_fixed_points_witness:
  "plot_type_sel (sample_ui\<lparr>plot_type_sel := NormalDistributionCurve\<rparr>)
     = NormalDistributionCurve
   \<and> plot_output (raising_lib []) sample_data
       (configure (sample_ui\<lparr>plot_type_sel := NormalDistributionCurve\<rparr>)) =
       ([StPlotlyChart
           (UpdateLayout
              (PxLineXY (np_linspace (- 3) 3 100)
                 (map norm_pdf (np_linspace (- 3) 3 100))
                 (Some ''Normal Distribution Curve of a''))
              [(''xaxis_title'', Some ''a''), (''yaxis_title'', Some ''a'')])], None)
   \<and> (0::nat) < 99
   \<and> np_linspace (- 3) 3 100 ! Suc 0 - np_linspace (- 3) 3 100 ! 0 = 2 / 33"
proof -
  let ?u = "sample_ui\<lparr>plot_type_sel := NormalDistributionCurve\<rparr>"
  have h: "plot_type_sel ?u = NormalDistributionCurve" by simp
  have cfg: "plot_title (configure ?u) = Some ''Normal Distribution Curve of a''"
    "xlabel (configure ?u) = Some ''a''" "ylabel (configure ?u) = Some ''a''"
    by (simp_all add: sample_ui_def configure_def Let_def text_input_def)
  from normal_curve_fixed_points [OF h, of "raising_lib []" sample_data] show ?thesis
    by (simp add: cfg)
qed

subsection \<open>The summary section\<close>

text \<open>
  C4. The summary is not rendered on every run with a loaded dataset. On a sheet without
  columns every select box returns \<open>None\<close>; an OLS request shows the configuration
  warning and the header of the summary, and then \<open>data.describe()\<close> at line 164 raises
  outside every \<open>try\<close>: the run stops without the table. On a sheet with a text column a
  heatmap request stops at \<open>data.corr()\<close> at line 120, before the summary.
\<close>

theorem summary_missing_after_uncaught_exception:
  "page fitting_lib (Some []) empty_ui =
     ([StSubheader (page_icon @ '' Dataset Preview''), StDataframe (Head []),
       StSubheader (bar_chart_icon @ '' Plot Output''),
       StWarning ols_warning,
       StSubheader (chart_up_icon @ '' Statistical Summary'')],
      Some ''Cannot describe a DataFrame without columns'')
   \<and> page fitting_lib (Some mixed_data)
        (sample_ui\<lparr>plot_type_sel := CorrelationHeatmap, single_chk := False,
           x_sel := Some (TextLabel ''name''), y_sel := Some (TextLabel ''age'')\<rparr>) =
     ([StSubheader (page_icon @ '' Dataset Preview''), StDataframe (Head mixed_data),
       StSubheader (bar_chart_icon @ '' Plot Output'')],
      Some float_conversion_error)"
  by (simp add: page_def preview_def plot_output_def ols_regression_def
        two_columns_selected_def statistical_summary_def describe_def df_corr_def
        has_text_def mixed_data_def empty_ui_def render_def raise_def)

subsection \<open>Single-column mode\<close>

text \<open>
  C5. In single-column mode the effective Y selection is \<open>None\<close>; the single-column
  label is the text typed in the label field, or the selected column when nothing was
  typed; the default title is "plot type of single-column label"; and the Y select box
  has no effect on the page: the dispatcher only ever sees the cleared value. Outside
  single-column mode the default title is "plot type of X vs Y". The title field shows
  the default title until the user edits it.
\<close>

theorem single_column_mode_clears_y:
  "(single_chk u \<longrightarrow>
      y_col (configure u) = None
      \<and> single_column_label (configure u)
          = (case single_label_typed u of
               Some s \<Rightarrow> Some s
             | None \<Rightarrow> map_option label_text (single_sel u))
      \<and> default_title (configure u)
          = plot_type_name (plot_type_sel u) @ '' of ''
            @ (case single_label_typed u of
                 Some s \<Rightarrow> s
               | None \<Rightarrow> selection_text (single_sel u))
      \<and> default_title (configure u)
          = plot_type_name (plot_type_sel u) @ '' of ''
            @ py_str (single_column_label (configure u))
      \<and> page L loaded (u\<lparr>y_sel := y\<rparr>) = page L loaded u)
   \<and> (\<not> single_chk u \<longrightarrow>
      y_col (configure u) = y_sel u
      \<and> default_title (configure u)
          = plot_type_name (plot_type_sel u) @ '' of '' @ selection_text (x_sel u)
            @ '' vs '' @ selection_text (y_sel u))
   \<and> plot_title (configure u)
       = (case title_typed u of
            Some s \<Rightarrow> Some s
          | None \<Rightarrow> Some (default_title (configure u)))"
proof (cases "single_chk u")
  case True
  then have "page L loaded (u\<lparr>y_sel := y\<rparr>) = page L loaded u"
    by (cases loaded) (simp_all add: page_def configure_single_y)
  with True show ?thesis
    by (simp add: configure_def Let_def text_input_def selection_text_def
          split: option.split)
next
  case False
  then show ?thesis
    by (simp add: configure_def Let_def text_input_def split: option.split)
qed

text \<open>C5 on the sample widgets: single-column mode with no label typed, with the label
  "Custom" typed on a box plot of \<open>b\<close>, and single-column mode off.\<close>

theorem single_column_mode_clears_y_witness:
  "single_chk sample_ui
   \<and> y_col (configure sample_ui) = None
   \<and> default_title (configure sample_ui) = ''Histogram of a''
   \<and> single_chk
       (sample_ui\<lparr>plot_type_sel := BoxPlot, single_sel := Some (TextLabel ''b''),
          single_label_typed := Some ''Custom''\<rparr>)
   \<and> default_title
       (configure
          (sample_ui\<lparr>plot_type_sel := BoxPlot, single_sel := Some (TextLabel ''b''),
             single_label_typed := Some ''Custom''\<rparr>))
       = ''Box Plot of Custom''
   \<and> plot_title
       (configure
          (sample_ui\<lparr>plot_type_sel := BoxPlot, single_sel := Some (TextLabel ''b''),
             single_label_typed := Some ''Custom''\<rparr>))
       = Some ''Box Plot of Custom''
   \<and> \<not> single_chk (sample_ui\<lparr>single_chk := False\<rparr>)
   \<and> default_title (configure (sample_ui\<lparr>single_chk := False\<rparr>)) = ''Histogram of a vs b''"
proof -
  let ?v = "sample_ui\<lparr>plot_type_sel := BoxPlot, single_sel := Some (TextLabel ''b''),
              single_label_typed := Some ''Custom''\<rparr>"
  let ?w = "sample_ui\<lparr>single_chk := False\<rparr>"
  have s: "single_chk sample_ui" "single_label_typed sample_ui = None"
    "single_sel sample_ui = Some (TextLabel ''a'')" "plot_type_sel sample_ui = Histogram"
    "x_sel sample_ui = Some (TextLabel ''a'')" "y_sel sample_ui = Some (TextLabel ''b'')"
    "title_typed sample_ui = None"
    by (simp_all add: sample_ui_def)
  from single_column_mode_clears_y [of sample_ui "raising_lib []" None None]
    single_column_mode_clears_y [of ?v "raising_lib []" None None]
    single_column_mode_clears_y [of ?w "raising_lib []" None None]
  show ?thesis by (simp add: s selection_text_def)
qed

subsection \<open>The heatmap\<close>

text \<open>
  C6. With plot type "Correlation Heatmap" the output is decided by \<open>data.corr()\<close>
  alone: the chart \<open>px.imshow\<close> of its value under the fixed title "Correlation Heatmap"
  (on a dataset without text cells, of \<open>DfCorr data\<close>), or its exception. Two
  configurations over the same dataset give the same output, whatever their X, Y, title
  and axis-label values.
\<close>

theorem heatmap_depends_on_dataset_only:
  assumes "plot_type_sel u = CorrelationHeatmap" and "plot_type_sel u' = CorrelationHeatmap"
  shows "plot_output L data (configure u)
           = (case df_corr data of
                Inl e \<Rightarrow> ([], Some e)
              | Inr corr \<Rightarrow>
                  ([StPlotlyChart (PxImshow corr (Some ''Correlation Heatmap''))], None))
         \<and> (\<not> list_ex (\<lambda>(l, col). has_text col) data \<longrightarrow>
              plot_output L data (configure u)
                = ([StPlotlyChart (PxImshow (DfCorr data) (Some ''Correlation Heatmap''))],
                   None))
         \<and> plot_output L' data (configure u') = plot_output L data (configure u)"
  using assms
  by (simp add: plot_output_def df_corr_def render_def raise_def)

text \<open>C6 on two heatmap requests that differ in X, Y, mode, title and labels.\<close>

theorem heatmap_depends_on_dataset_only_witness:
  "plot_type_sel (sample_ui\<lparr>plot_type_sel := CorrelationHeatmap\<rparr>) = CorrelationHeatmap
   \<and> plot_type_sel
       (sample_ui\<lparr>plot_type_sel := CorrelationHeatmap, x_sel := Some (TextLabel ''b''),
          y_sel := Some (TextLabel ''a''), single_chk := False,
          title_typed := Some ''My title'', xlabel_typed := Some ''time'',
          ylabel_typed := Some ''value''\<rparr>)
       = CorrelationHeatmap
   \<and> \<not> list_ex (\<lambda>(l, col). has_text col) sample_data
   \<and> plot_output (raising_lib []) sample_data
        (configure (sample_ui\<lparr>plot_type_sel := CorrelationHeatmap\<rparr>))
       = ([StPlotlyChart (PxImshow (DfCorr sample_data) (Some ''Correlation Heatmap''))],
          None)
   \<and> plot_output (raising_lib []) sample_data
        (configure
           (sample_ui\<lparr>plot_type_sel := CorrelationHeatmap, x_sel := Some (TextLabel ''b''),
              y_sel := Some (TextLabel ''a''), single_chk := False,
              title_typed := Some ''My title'', xlabel_typed := Some ''time'',
              ylabel_typed := Some ''value''\<rparr>))
       = plot_output (raising_lib []) sample_data
           (configure (sample_ui\<lparr>plot_type_sel := CorrelationHeatmap\<rparr>))"
proof -
  have n: "\<not> list_ex (\<lambda>(l, col). has_text col) sample_data"
    by (simp add: sample_data_def has_text_def)
  from heatmap_depends_on_dataset_only
      [of "sample_ui\<lparr>plot_type_sel := CorrelationHeatmap\<rparr>"
          "sample_ui\<lparr>plot_type_sel := CorrelationHeatmap, x_sel := Some (TextLabel ''b''),
             y_sel := Some (TextLabel ''a''), single_chk := False,
             title_typed := Some ''My title'', xlabel_typed := Some ''time'',
             ylabel_typed := Some ''value''\<rparr>"
          "raising_lib []" sample_data "raising_lib []"] n
  show ?thesis by (simp add: df_corr_def)
qed

subsection \<open>The histogram\<close>

text \<open>
  C7, as amended. With plot type "Histogram" and single-column mode on, the call is
  \<open>px.histogram(data, x=single_column, title=plot_title)\<close>: the selected column and no
  \<open>y\<close> argument, as in the other single-column branches. The Y column is passed as \<open>y\<close>
  only when single-column mode is off.
\<close>

theorem histogram_single_column_has_no_weight:
  assumes "plot_type_sel u = Histogram"
  shows "plot_output L data (configure u) =
           ([StPlotlyChart
               (UpdateLayout
                  (if single_chk u
                   then PxHistogram data (single_sel u) None (plot_title (configure u))
                   else PxHistogram data (x_sel u) (y_sel u) (plot_title (configure u)))
                  [(''xaxis_title'', xlabel (configure u)),
                   (''yaxis_title'', ylabel (configure u))])], None)"
  using assms by (simp add: plot_output_def show_labelled_def render_def)

text \<open>C7 as amended, on the two-column histogram of \<open>a\<close> and \<open>b\<close> and on the
  single-column histogram of \<open>b\<close>.\<close>

theorem histogram_single_column_has_no_weight_witness:
  "plot_type_sel (sample_ui\<lparr>single_chk := False\<rparr>) = Histogram
   \<and> plot_output (raising_lib []) sample_data (configure (sample_ui\<lparr>single_chk := False\<rparr>)) =
       ([StPlotlyChart
           (UpdateLayout
              (PxHistogram sample_data (Some (TextLabel ''a'')) (Some (TextLabel ''b''))
                 (Some ''Histogram of a vs b''))
              [(''xaxis_title'', Some ''a''), (''yaxis_title'', Some ''b'')])], None)
   \<and> plot_type_sel (sample_ui\<lparr>single_sel := Some (TextLabel ''b'')\<rparr>) = Histogram
   \<and> plot_output (raising_lib []) sample_data
        (configure (sample_ui\<lparr>single_sel := Some (TextLabel ''b'')\<rparr>)) =
       ([StPlotlyChart
           (UpdateLayout
              (PxHistogram sample_data (Some (TextLabel ''b'')) None (Some ''Histogram of b''))
              [(''xaxis_title'', Some ''a''), (''yaxis_title'', Some ''b'')])], None)"
proof -
  let ?u = "sample_ui\<lparr>single_chk := False\<rparr>"
  let ?v = "sample_ui\<lparr>single_sel := Some (TextLabel ''b'')\<rparr>"
  have h1: "plot_type_sel ?u = Histogram" by (simp add: sample_ui_def)
  have h2: "plot_type_sel ?v = Histogram" by (simp add: sample_ui_def)
  have cfg: "plot_title (configure ?u) = Some ''Histogram of a vs b''"
    "xlabel (configure ?u) = Some ''a''" "ylabel (configure ?u) = Some ''b''"
    "plot_title (configure ?v) = Some ''Histogram of b''"
    "xlabel (configure ?v) = Some ''a''" "ylabel (configure ?v) = Some ''b''"
    by (simp_all add: sample_ui_def configure_def Let_def text_input_def selection_text_def)
  have sel: "x_sel sample_ui = Some (TextLabel ''a'')"
    "y_sel sample_ui = Some (TextLabel ''b'')" "single_chk sample_ui"
    by (simp_all add: sample_ui_def)
  from histogram_single_column_has_no_weight [OF h1, of "raising_lib []" sample_data]
    histogram_single_column_has_no_weight [OF h2, of "raising_lib []" sample_data] h1 h2
  show ?thesis by (simp add: cfg sel)
qed

text \<open>
  C7 as stated fails: on the sample widgets (single-column mode on column \<open>a\<close>, Y select
  box on \<open>b\<close>) the histogram call has \<open>y = None\<close>; it is not the call with \<open>b\<close> as the
  weighting argument.
\<close>

theorem histogram_single_column_weight_counterexample:
  "plot_output (raising_lib []) sample_data (configure sample_ui) =
     ([StPlotlyChart
         (UpdateLayout
            (PxHistogram sample_data (Some (TextLabel ''a'')) None (Some ''Histogram of a''))
            [(''xaxis_title'', Some ''a''), (''yaxis_title'', Some ''a'')])], None)
   \<and> plot_output (raising_lib []) sample_data (configure sample_ui) \<noteq>
     ([StPlotlyChart
         (UpdateLayout
            (PxHistogram sample_data (Some (TextLabel ''a'')) (Some (TextLabel ''b''))
               (Some ''Histogram of a''))
            [(''xaxis_title'', Some ''a''), (''yaxis_title'', Some ''a'')])], None)"
  by (simp add: plot_output_def show_labelled_def sample_ui_def configure_def Let_def
        text_input_def selection_text_def render_def)

subsection \<open>Exceptions in the OLS branch\<close>

text \<open>
  C8. Take an OLS request with single-column mode off and X different from Y, over a
  dataset with at least one column (two different selections exist over no other). The
  run never ends in an exception: the page is the preview, the plot output and the
  statistical summary with the table \<open>data.describe()\<close>. If both labels are true the
  \<open>try\<close> block runs, and an exception with text \<open>e\<close> raised by a column lookup, by
  \<open>add_constant\<close> (the intercept term), by the fit or by the prediction leaves as plot
  output the one error banner "Error fitting OLS model: \<open>e\<close>"; raised by
  \<open>model.summary()\<close> it leaves the chart and the header already sent, then that
  banner. If a label is false the branch warns and fits nothing.
\<close>

theorem ols_exception_becomes_error_banner:
  assumes "plot_type_sel u = OLSRegression"
    and "\<not> single_chk u" and "x_sel u \<noteq> y_sel u" and "data \<noteq> []"
  shows "(\<exists>out. plot_output L data (configure u) = (out, None)
            \<and> page L (Some data) u =
                ([StSubheader (page_icon @ '' Dataset Preview''), StDataframe (Head data),
                  StSubheader (bar_chart_icon @ '' Plot Output'')]
                 @ out
                 @ [StSubheader (chart_up_icon @ '' Statistical Summary''),
                    StWrite (Describe data)], None))
         \<and> (truthy (x_sel u) \<and> truthy (y_sel u) \<longrightarrow>
              (\<forall>e. getitem data (x_sel u) = Inl e \<longrightarrow>
                 plot_output L data (configure u) =
                   ([StError (cross_mark @ '' Error fitting OLS model: '' @ e)], None))
              \<and> (\<forall>xs e. getitem data (x_sel u) = Inr xs \<and> add_constant L xs = Inl e \<longrightarrow>
                   plot_output L data (configure u) =
                     ([StError (cross_mark @ '' Error fitting OLS model: '' @ e)], None))
              \<and> (\<forall>xs X e.
                   getitem data (x_sel u) = Inr xs \<and> add_constant L xs = Inr X
                   \<and> getitem data (y_sel u) = Inl e \<longrightarrow>
                   plot_output L data (configure u) =
                     ([StError (cross_mark @ '' Error fitting OLS model: '' @ e)], None))
              \<and> (\<forall>xs X ys e.
                   getitem data (x_sel u) = Inr xs \<and> add_constant L xs = Inr X
                   \<and> getitem data (y_sel u) = Inr ys \<and> ols_fit L ys X = Inl e \<longrightarrow>
                   plot_output L data (configure u) =
                     ([StError (cross_mark @ '' Error fitting OLS model: '' @ e)], None))
              \<and> (\<forall>xs X ys m e.
                   getitem data (x_sel u) = Inr xs \<and> add_constant L xs = Inr X
                   \<and> getitem data (y_sel u) = Inr ys \<and> ols_fit L ys X = Inr m
                   \<and> predict L m X = Inl e \<longrightarrow>
                   plot_output L data (configure u) =
                     ([StError (cross_mark @ '' Error fitting OLS model: '' @ e)], None))
              \<and> (\<forall>xs X ys m p e.
                   getitem data (x_sel u) = Inr xs \<and> add_constant L xs = Inr X
                   \<and> getitem data (y_sel u) = Inr ys \<and> ols_fit L ys X = Inr m
                   \<and> predict L m X = Inr p \<and> summary L m = Inl e \<longrightarrow>
                   plot_output L data (configure u) =
                     ([StPlotlyChart
                         (UpdateLayout
                            (AddScatter
                               (PxScatter data (x_sel u) (y_sel u) (plot_title (configure u)))
                               xs p)
                            [(''title'', plot_title (configure u)),
                             (''xaxis_title'', xlabel (configure u)),
                             (''yaxis_title'', ylabel (configure u))]),
                       StSubheader (page_icon @ '' OLS Regression Summary''),
                       StError (cross_mark @ '' Error fitting OLS model: '' @ e)], None)))
         \<and> (\<not> (truthy (x_sel u) \<and> truthy (y_sel u)) \<longrightarrow>
              plot_output L data (configure u) = ([StWarning ols_warning], None))"
proof -
  have caught: "\<exists>out. plot_output L data (configure u) = (out, None)"
    using assms(1)
    by (simp add: plot_output_def ols_regression_def render_def split: prod.split option.split)
  then obtain out where out: "plot_output L data (configure u) = (out, None)" ..
  have whole: "\<exists>out. plot_output L data (configure u) = (out, None)
            \<and> page L (Some data) u =
                ([StSubheader (page_icon @ '' Dataset Preview''), StDataframe (Head data),
                  StSubheader (bar_chart_icon @ '' Plot Output'')]
                 @ out
                 @ [StSubheader (chart_up_icon @ '' Statistical Summary''),
                    StWrite (Describe data)], None)"
    using out page_loaded [OF assms(4) out] by blast
  have warn: "\<not> (truthy (x_sel u) \<and> truthy (y_sel u)) \<longrightarrow>
                plot_output L data (configure u) = ([StWarning ols_warning], None)"
    using assms(1)
    by (auto simp add: plot_output_def ols_regression_def two_columns_selected_def render_def)
  have run: "truthy (x_sel u) \<and> truthy (y_sel u) \<longrightarrow>
              (\<forall>e. getitem data (x_sel u) = Inl e \<longrightarrow>
                 plot_output L data (configure u) =
                   ([StError (cross_mark @ '' Error fitting OLS model: '' @ e)], None))
              \<and> (\<forall>xs e. getitem data (x_sel u) = Inr xs \<and> add_constant L xs = Inl e \<longrightarrow>
                   plot_output L data (configure u) =
                     ([StError (cross_mark @ '' Error fitting OLS model: '' @ e)], None))
              \<and> (\<forall>xs X e.
                   getitem data (x_sel u) = Inr xs \<and> add_constant L xs = Inr X
                   \<and> getitem data (y_sel u) = Inl e \<longrightarrow>
                   plot_output L data (configure u) =
                     ([StError (cross_mark @ '' Error fitting OLS model: '' @ e)], None))
              \<and> (\<forall>xs X ys e.
                   getitem data (x_sel u) = Inr xs \<and> add_constant L xs = Inr X
                   \<and> getitem data (y_sel u) = Inr ys \<and> ols_fit L ys X = Inl e \<longrightarrow>
                   plot_output L data (configure u) =
                     ([StError (cross_mark @ '' Error fitting OLS model: '' @ e)], None))
              \<and> (\<forall>xs X ys m e.
                   getitem data (x_sel u) = Inr xs \<and> add_constant L xs = Inr X
                   \<and> getitem data (y_sel u) = Inr ys \<and> ols_fit L ys X = Inr m
                   \<and> predict L m X = Inl e \<longrightarrow>
                   plot_output L data (configure u) =
                     ([StError (cross_mark @ '' Error fitting OLS model: '' @ e)], None))
              \<and> (\<forall>xs X ys m p e.
                   getitem data (x_sel u) = Inr xs \<and> add_constant L xs = Inr X
                   \<and> getitem data (y_sel u) = Inr ys \<and> ols_fit L ys X = Inr m
                   \<and> predict L m X = Inr p \<and> summary L m = Inl e \<longrightarrow>
                   plot_output L data (configure u) =
                     ([StPlotlyChart
                         (UpdateLayout
                            (AddScatter
                               (PxScatter data (x_sel u) (y_sel u) (plot_title (configure u)))
                               xs p)
                            [(''title'', plot_title (configure u)),
                             (''xaxis_title'', xlabel (configure u)),
                             (''yaxis_title'', ylabel (configure u))]),
                       StSubheader (page_icon @ '' OLS Regression Summary''),
                       StError (cross_mark @ '' Error fitting OLS model: '' @ e)], None))"
  proof (intro impI)
    assume t: "truthy (x_sel u) \<and> truthy (y_sel u)"
    have sel: "two_columns_selected (configure u)"
      using assms(2,3) t by (simp add: two_columns_selected_def)
    have po: "plot_output L data (configure u) =
                (case ols_body L data (configure u) of
                   (out, None) \<Rightarrow> render out
                 | (out, Some e) \<Rightarrow> render (out @ [StError (ols_error e)]))"
      using assms(1) sel by (simp add: plot_output_def ols_regression_def)
    have a: "\<forall>e. getitem data (x_sel u) = Inl e \<longrightarrow>
                 plot_output L data (configure u) =
                   ([StError (cross_mark @ '' Error fitting OLS model: '' @ e)], None)"
      by (simp add: po ols_body_def ols_error_def render_def raise_def)
    have b: "\<forall>xs e. getitem data (x_sel u) = Inr xs \<and> add_constant L xs = Inl e \<longrightarrow>
                   plot_output L data (configure u) =
                     ([StError (cross_mark @ '' Error fitting OLS model: '' @ e)], None)"
      by (simp add: po ols_body_def ols_error_def render_def raise_def)
    have c: "\<forall>xs X e.
                   getitem data (x_sel u) = Inr xs \<and> add_constant L xs = Inr X
                   \<and> getitem data (y_sel u) = Inl e \<longrightarrow>
                   plot_output L data (configure u) =
                     ([StError (cross_mark @ '' Error fitting OLS model: '' @ e)], None)"
      using assms(2) by (simp add: po ols_body_def ols_error_def render_def raise_def)
    have d: "\<forall>xs X ys e.
                   getitem data (x_sel u) = Inr xs \<and> add_constant L xs = Inr X
                   \<and> getitem data (y_sel u) = Inr ys \<and> ols_fit L ys X = Inl e \<longrightarrow>
                   plot_output L data (configure u) =
                     ([StError (cross_mark @ '' Error fitting OLS model: '' @ e)], None)"
      using assms(2) by (simp add: po ols_body_def ols_error_def render_def raise_def)
    have e: "\<forall>xs X ys m e.
                   getitem data (x_sel u) = Inr xs \<and> add_constant L xs = Inr X
                   \<and> getitem data (y_sel u) = Inr ys \<and> ols_fit L ys X = Inr m
                   \<and> predict L m X = Inl e \<longrightarrow>
                   plot_output L data (configure u) =
                     ([StError (cross_mark @ '' Error fitting OLS model: '' @ e)], None)"
      using assms(2) by (simp add: po ols_body_def ols_error_def render_def raise_def)
    have f: "\<forall>xs X ys m p e.
                   getitem data (x_sel u) = Inr xs \<and> add_constant L xs = Inr X
                   \<and> getitem data (y_sel u) = Inr ys \<and> ols_fit L ys X = Inr m
                   \<and> predict L m X = Inr p \<and> summary L m = Inl e \<longrightarrow>
                   plot_output L data (configure u) =
                     ([StPlotlyChart
                         (UpdateLayout
                            (AddScatter
                               (PxScatter data (x_sel u) (y_sel u) (plot_title (configure u)))
                               xs p)
                            [(''title'', plot_title (configure u)),
                             (''xaxis_title'', xlabel (configure u)),
                             (''yaxis_title'', ylabel (configure u))]),
                       StSubheader (page_icon @ '' OLS Regression Summary''),
                       StError (cross_mark @ '' Error fitting OLS model: '' @ e)], None)"
      using assms(2)
      by (simp add: po ols_body_def ols_error_def render_def raise_def Let_def)
    show "(\<forall>e. getitem data (x_sel u) = Inl e \<longrightarrow>
                 plot_output L data (configure u) =
                   ([StError (cross_mark @ '' Error fitting OLS model: '' @ e)], None))
              \<and> (\<forall>xs e. getitem data (x_sel u) = Inr xs \<and> add_constant L xs = Inl e \<longrightarrow>
                   plot_output L data (configure u) =
                     ([StError (cross_mark @ '' Error fitting OLS model: '' @ e)], None))
              \<and> (\<forall>xs X e.
                   getitem data (x_sel u) = Inr xs \<and> add_constant L xs = Inr X
                   \<and> getitem data (y_sel u) = Inl e \<longrightarrow>
                   plot_output L data (configure u) =
                     ([StError (cross_mark @ '' Error fitting OLS model: '' @ e)], None))
              \<and> (\<forall>xs X ys e.
                   getitem data (x_sel u) = Inr xs \<and> add_constant L xs = Inr X
                   \<and> getitem data (y_sel u) = Inr ys \<and> ols_fit L ys X = Inl e \<longrightarrow>
                   plot_output L data (configure u) =
                     ([StError (cross_mark @ '' Error fitting OLS model: '' @ e)], None))
              \<and> (\<forall>xs X ys m e.
                   getitem data (x_sel u) = Inr xs \<and> add_constant L xs = Inr X
                   \<and> getitem data (y_sel u) = Inr ys \<and> ols_fit L ys X = Inr m
                   \<and> predict L m X = Inl e \<longrightarrow>
                   plot_output L data (configure u) =
                     ([StError (cross_mark @ '' Error fitting OLS model: '' @ e)], None))
              \<and> (\<forall>xs X ys m p e.
                   getitem data (x_sel u) = Inr xs \<and> add_constant L xs = Inr X
                   \<and> getitem data (y_sel u) = Inr ys \<and> ols_fit L ys X = Inr m
                   \<and> predict L m X = Inr p \<and> summary L m = Inl e \<longrightarrow>
                   plot_output L data (configure u) =
                     ([StPlotlyChart
                         (UpdateLayout
                            (AddScatter
                               (PxScatter data (x_sel u) (y_sel u) (plot_title (configure u)))
                               xs p)
                            [(''title'', plot_title (configure u)),
                             (''xaxis_title'', xlabel (configure u)),
                             (''yaxis_title'', ylabel (configure u))]),
                       StSubheader (page_icon @ '' OLS Regression Summary''),
                       StError (cross_mark @ '' Error fitting OLS model: '' @ e)], None))"
      using a b c d e f by (intro conjI)
  qed
  show ?thesis using whole run warn by (intro conjI)
qed

text \<open>C8 on the sample dataset with X = \<open>a\<close>, Y = \<open>b\<close> and a fit that raises
  "Singular matrix".\<close>

theorem ols_exception_becomes_error_banner_witness:
  "plot_type_sel (sample_ui\<lparr>plot_type_sel := OLSRegression, single_chk := False\<rparr>)
     = OLSRegression
   \<and> \<not> single_chk (sample_ui\<lparr>plot_type_sel := OLSRegression, single_chk := False\<rparr>)
   \<and> Some (TextLabel ''a'') \<noteq> Some (TextLabel ''b'')
   \<and> sample_data \<noteq> []
   \<and> truthy (Some (TextLabel ''a'')) \<and> truthy (Some (TextLabel ''b''))
   \<and> getitem sample_data (Some (TextLabel ''a'')) = Inr [Num 1, Num 2, Num 3]
   \<and> add_constant (raising_lib ''Singular matrix'') [Num 1, Num 2, Num 3]
       = Inr [Num 1, Num 2, Num 3]
   \<and> getitem sample_data (Some (TextLabel ''b'')) = Inr [Num 2, Num 4, Num 6]
   \<and> ols_fit (raising_lib ''Singular matrix'') [Num 2, Num 4, Num 6] [Num 1, Num 2, Num 3]
       = Inl ''Singular matrix''
   \<and> page (raising_lib ''Singular matrix'') (Some sample_data)
        (sample_ui\<lparr>plot_type_sel := OLSRegression, single_chk := False\<rparr>)
       = ([StSubheader (page_icon @ '' Dataset Preview''), StDataframe (Head sample_data),
           StSubheader (bar_chart_icon @ '' Plot Output''),
           StError (cross_mark @ '' Error fitting OLS model: Singular matrix''),
           StSubheader (chart_up_icon @ '' Statistical Summary''),
           StWrite (Describe sample_data)], None)"
proof -
  let ?u = "sample_ui\<lparr>plot_type_sel := OLSRegression, single_chk := False\<rparr>"
  let ?L = "raising_lib ''Singular matrix''"
  have h1: "plot_type_sel ?u = OLSRegression" by simp
  have h2: "\<not> single_chk ?u" by simp
  have sx: "x_sel ?u = Some (TextLabel ''a'')" and sy: "y_sel ?u = Some (TextLabel ''b'')"
    by (simp_all add: sample_ui_def)
  have h3: "x_sel ?u \<noteq> y_sel ?u" by (simp add: sx sy)
  have h4: "sample_data \<noteq> []" by (simp add: sample_data_def)
  have t: "truthy (x_sel ?u) \<and> truthy (y_sel ?u)" by (simp add: sx sy)
  have gx: "getitem sample_data (x_sel ?u) = Inr [Num 1, Num 2, Num 3]"
    by (simp add: sx getitem_def sample_data_def)
  have gy: "getitem sample_data (y_sel ?u) = Inr [Num 2, Num 4, Num 6]"
    by (simp add: sy getitem_def sample_data_def)
  have ac: "add_constant ?L [Num 1, Num 2, Num 3] = Inr [Num 1, Num 2, Num 3]"
    by (simp add: raising_lib_def)
  have fit: "ols_fit ?L [Num 2, Num 4, Num 6] [Num 1, Num 2, Num 3] = Inl ''Singular matrix''"
    by (simp add: raising_lib_def)
  note inst = ols_exception_becomes_error_banner [OF h1 h2 h3 h4, of ?L]
  from inst t gx ac gy fit
  have po: "plot_output ?L sample_data (configure ?u) =
              ([StError (cross_mark @ '' Error fitting OLS model: '' @ ''Singular matrix'')],
               None)"
    by blast
  from inst have "\<exists>out. plot_output ?L sample_data (configure ?u) = (out, None)
            \<and> page ?L (Some sample_data) ?u =
                ([StSubheader (page_icon @ '' Dataset Preview''),
                  StDataframe (Head sample_data),
                  StSubheader (bar_chart_icon @ '' Plot Output'')]
                 @ out
                 @ [StSubheader (chart_up_icon @ '' Statistical Summary''),
                    StWrite (Describe sample_data)], None)"
    by (rule conjunct1)
  then obtain out where
    o: "plot_output ?L sample_data (configure ?u) = (out, None)" and
    p: "page ?L (Some sample_data) ?u =
          ([StSubheader (page_icon @ '' Dataset Preview''), StDataframe (Head sample_data),
            StSubheader (bar_chart_icon @ '' Plot Output'')]
           @ out
           @ [StSubheader (chart_up_icon @ '' Statistical Summary''),
              StWrite (Describe sample_data)], None)"
    by blast
  from o po have "out = [StError (cross_mark @ '' Error fitting OLS model: ''
                                  @ ''Singular matrix'')]"
    by simp
  with p have "page ?L (Some sample_data) ?u =
       ([StSubheader (page_icon @ '' Dataset Preview''), StDataframe (Head sample_data),
         StSubheader (bar_chart_icon @ '' Plot Output''),
         StError (cross_mark @ '' Error fitting OLS model: Singular matrix''),
         StSubheader (chart_up_icon @ '' Statistical Summary''),
         StWrite (Describe sample_data)], None)"
    by simp
  then show ?thesis using gx gy ac fit h4 by (simp add: sx sy)
qed

subsection \<open>The hue selection\<close>

text \<open>
  C9. The hue select box is read and never used: changing only its value leaves every
  element of the page unchanged, for every dataset, library behaviour and configuration.
\<close>

theorem hue_selection_unused: "page L loaded (u\<lparr>hue_sel := h\<rparr>) = page L loaded u"
  by (cases loaded) (simp_all add: page_def configure_hue plot_output_hue)

subsection \<open>The scatter plot\<close>

text \<open>
  C10. The scatter branch has no single-column guard: in single-column mode it still
  calls \<open>px.scatter\<close> with the X selection and \<open>y = None\<close>, shows the chart, and emits no
  warning.
\<close>

theorem scatter_has_no_single_column_guard:
  assumes "single_chk u" and "plot_type_sel u = ScatterPlot"
  shows "plot_output L data (configure u) =
           ([StPlotlyChart
               (UpdateLayout (PxScatter data (x_sel u) None (plot_title (configure u)))
                  [(''xaxis_title'', xlabel (configure u)),
                   (''yaxis_title'', ylabel (configure u))])], None)"
  using assms by (simp add: plot_output_def show_labelled_def render_def)

text \<open>C10 on the sample widgets with the scatter plot selected.\<close>

theorem scatter_has_no_single_column_guard_witness:
  "single_chk (sample_ui\<lparr>plot_type_sel := ScatterPlot\<rparr>)
   \<and> plot_type_sel (sample_ui\<lparr>plot_type_sel := ScatterPlot\<rparr>) = ScatterPlot
   \<and> plot_output (raising_lib []) sample_data
        (configure (sample_ui\<lparr>plot_type_sel := ScatterPlot\<rparr>)) =
       ([StPlotlyChart
           (UpdateLayout
              (PxScatter sample_data (Some (TextLabel ''a'')) None (Some ''Scatter Plot of a''))
              [(''xaxis_title'', Some ''a''), (''yaxis_title'', Some ''a'')])], None)"
proof -
  let ?u = "sample_ui\<lparr>plot_type_sel := ScatterPlot\<rparr>"
  have h1: "single_chk ?u" by (simp add: sample_ui_def)
  have h2: "plot_type_sel ?u = ScatterPlot" by simp
  have cfg: "plot_title (configure ?u) = Some ''Scatter Plot of a''"
    "xlabel (configure ?u) = Some ''a''" "ylabel (configure ?u) = Some ''a''"
    "x_sel ?u = Some (TextLabel ''a'')"
    by (simp_all add: sample_ui_def configure_def Let_def text_input_def selection_text_def)
  from scatter_has_no_single_column_guard [OF h1 h2, of "raising_lib []" sample_data] h1
  show ?thesis by (simp add: cfg)
qed

end
